theory Spec2Isabelle
  imports Main "HOL-Library.Word"
begin

section \<open>The installation API of xdg-app-installation.c\<close>

text \<open>
  A shallow embedding of \<^verbatim>\<open>src/lib/xdg-app-installation.c\<close>. The functions of that
  file are translated one by one. What they call in other files (the \<^verbatim>\<open>flatpak_dir_*\<close>
  layer, libostree, GLib) is not part of the file: every such call takes its outcome from
  an environment record and is written to a trace of calls, in program order.
\<close>

subsection \<open>Machine integers and errors\<close>

type_synonym guint = "32 word"
type_synonym guint64 = "64 word"

text \<open>
  The \<^verbatim>\<open>GError\<close> values the file sets itself, the errors handed up from the layers
  below (\<open>Engine\<close>, with the message of the callee), and the two places where the C
  program has no defined behaviour: an integer division by zero and the use of a
  \<^verbatim>\<open>NULL\<close> pointer. On the usual targets these end the process with a signal.
  \<open>NoErrorSet\<close> stands for a \<^verbatim>\<open>NULL\<close> result that comes with no \<^verbatim>\<open>GError\<close>.
\<close>

datatype error =
    ALREADY_INSTALLED
  | NOT_INSTALLED
  | NOT_FOUND
  | INVALID_REF
  | FAILED string
  | Engine string
  | NoErrorSet
  | DivisionByZero
  | NullDereference

subsection \<open>Progress aggregation: \<^verbatim>\<open>progress_cb\<close>\<close>

text \<open>
  The values \<^verbatim>\<open>progress_cb\<close> reads from the \<^verbatim>\<open>OstreeAsyncProgress\<close> object, and the
  value of \<^verbatim>\<open>g_get_monotonic_time ()\<close> at the time of the call.
\<close>

record counters =
  status :: "string option"
  outstanding_fetches :: guint
  outstanding_metadata_fetches :: guint
  outstanding_writes :: guint
  scanned_metadata :: guint
  fetched_delta_parts :: guint
  total_delta_parts :: guint
  total_delta_part_size :: guint64
  bytes_transferred :: guint64
  fetched :: guint
  metadata_fetched :: guint
  requested :: guint
  start_time :: guint64
  monotonic_time :: guint64

text \<open>
  GLib's \<^verbatim>\<open>g_format_size\<close> (\<^verbatim>\<open>g_format_size_full\<close> with flags 0 is the same
  function) and the floating-point percentage printed in the object-transfer text are
  taken as parameters.
\<close>

record glib =
  g_format_size :: "guint64 \<Rightarrow> string"
  double_percent :: "guint \<Rightarrow> guint \<Rightarrow> guint"

text \<open>The \<^verbatim>\<open>%u\<close> conversion of \<^verbatim>\<open>printf\<close>: decimal digits, no padding.\<close>

fun digits :: "nat \<Rightarrow> string" where
  "digits n =
     (if n < 10 then [''0123456789'' ! n]
      else digits (n div 10) @ [''0123456789'' ! (n mod 10)])"

definition fmt_u :: "guint \<Rightarrow> string" where
  "fmt_u w = digits (unat w)"

definition G_USEC_PER_SEC :: guint64 where
  "G_USEC_PER_SEC = 1000000"

text \<open>
  Lines 737 to 793: the elapsed time and the chain of cases that fills the text buffer,
  \<^verbatim>\<open>new_progress\<close> and \<^verbatim>\<open>estimating\<close>. The three integer divisions are evaluated
  where the source evaluates them; a zero divisor is the error \<open>DivisionByZero\<close>.
\<close>

definition progress_phase :: "glib \<Rightarrow> counters \<Rightarrow> error + (string \<times> guint \<times> bool)" where
  "progress_phase g c =
     (let ellapsed_time = (monotonic_time c - start_time c) div G_USEC_PER_SEC in
      case status c of
        Some s \<Rightarrow> Inr (s, 0, False)
      | None \<Rightarrow>
          if outstanding_fetches c \<noteq> 0 then
            if ellapsed_time = 0 then Inl DivisionByZero
            else
              let bytes_sec = bytes_transferred c div ellapsed_time;
                  formatted_bytes_transferred = g_format_size g (bytes_transferred c);
                  formatted_bytes_sec =
                    (if bytes_sec = 0 then ''-'' else g_format_size g bytes_sec)
              in
                if total_delta_parts c > 0 then
                  if total_delta_part_size c = 0 then Inl DivisionByZero
                  else
                    Inr (''Receiving delta parts: '' @ fmt_u (fetched_delta_parts c) @ ''/''
                           @ fmt_u (total_delta_parts c) @ '' '' @ formatted_bytes_sec
                           @ ''/s '' @ formatted_bytes_transferred @ ''/''
                           @ g_format_size g (total_delta_part_size c),
                         ucast ((100 * bytes_transferred c) div total_delta_part_size c),
                         False)
                else if outstanding_metadata_fetches c \<noteq> 0 then
                  Inr (''Receiving metadata objects: '' @ fmt_u (metadata_fetched c)
                         @ ''/(estimating) '' @ formatted_bytes_sec @ ''/s ''
                         @ formatted_bytes_transferred,
                       1, True)
                else
                  if requested c = 0 then Inl DivisionByZero
                  else
                    Inr (''Receiving objects: ''
                           @ fmt_u (double_percent g (fetched c) (requested c)) @ ''% (''
                           @ fmt_u (fetched c) @ ''/'' @ fmt_u (requested c) @ '') ''
                           @ formatted_bytes_sec @ ''/s '' @ formatted_bytes_transferred,
                         (100 * fetched c) div requested c,
                         False)
          else if outstanding_writes c \<noteq> 0 then
            Inr (''Writing objects: '' @ fmt_u (outstanding_writes c), 0, False)
          else
            Inr (''Scanning metadata: '' @ fmt_u (scanned_metadata c), 0, False))"

text \<open>What the caller's \<^verbatim>\<open>FlatpakProgressCallback\<close> receives.\<close>

record report =
  status_text :: string
  percent :: guint
  estimating :: bool

text \<open>
  The whole callback: \<open>last_progress\<close> is the value stored on the progress object under
  the key \<^verbatim>\<open>"last_progress"\<close>; the result is the report passed to the caller's
  callback and the value stored back (lines 795 to 799).
\<close>

definition progress_cb :: "glib \<Rightarrow> guint \<Rightarrow> counters \<Rightarrow> error + (report \<times> guint)" where
  "progress_cb g last_progress c =
     (case progress_phase g c of
        Inl e \<Rightarrow> Inl e
      | Inr (buf, new_progress, est) \<Rightarrow>
          let new_progress = (if new_progress < last_progress then last_progress else new_progress)
          in Inr (\<lparr>status_text = buf, percent = new_progress, estimating = est\<rparr>, new_progress))"

text \<open>
  One operation: the pull engine delivers the progress object's changes one after the
  other to \<^verbatim>\<open>progress_cb\<close>; the stored value links the calls. A call that ends the
  process delivers nothing, and nothing after it.
\<close>

fun run_progress :: "glib \<Rightarrow> guint \<Rightarrow> counters list \<Rightarrow> report list" where
  "run_progress g last_progress [] = []"
| "run_progress g last_progress (c # cs) =
     (case progress_cb g last_progress c of
        Inl e \<Rightarrow> []
      | Inr (r, stored) \<Rightarrow> r # run_progress g stored cs)"

subsection \<open>Refs and their snapshots\<close>

datatype ref_kind = FLATPAK_REF_KIND_APP | FLATPAK_REF_KIND_RUNTIME

text \<open>
  GLib's \<^verbatim>\<open>g_strsplit (s, "/", -1)\<close>: the pieces between the slashes, empty pieces
  included; the empty string gives the empty vector.
\<close>

fun split_slash :: "string \<Rightarrow> string list" where
  "split_slash [] = [[]]"
| "split_slash (c # cs) =
     (if c = CHR ''/'' then [] # split_slash cs
      else (case split_slash cs of [] \<Rightarrow> [[c]] | p # ps \<Rightarrow> (c # p) # ps))"

definition g_strsplit :: "string \<Rightarrow> string list" where
  "g_strsplit s = (if s = [] then [] else split_slash s)"

text \<open>The fields of a \<^verbatim>\<open>FlatpakRef\<close>, and of the two classes derived from it.\<close>

record flatpak_ref =
  ref_kind :: ref_kind
  ref_name :: string
  ref_arch :: string
  ref_branch :: string
  ref_commit :: string

record installed_ref = flatpak_ref +
  latest_commit :: "string option"
  origin :: string
  subpaths :: "string list"
  deploy_dir :: string
  installed_size :: guint64
  is_current :: bool

record remote_ref = flatpak_ref +
  remote_name :: string

text \<open>
  Modelled from the spec: \<^verbatim>\<open>flatpak_ref_format_ref\<close> is defined in xdg-app-ref.c, which is
  not among the sources. Section 3: the canonical string form of a ref is
  \<^verbatim>\<open><kind>/<name>/<arch>/<branch>\<close>.
\<close>

definition kind_string :: "ref_kind \<Rightarrow> string" where
  "kind_string k = (case k of FLATPAK_REF_KIND_APP \<Rightarrow> ''app'' | FLATPAK_REF_KIND_RUNTIME \<Rightarrow> ''runtime'')"

definition flatpak_ref_format_ref :: "'a flatpak_ref_scheme \<Rightarrow> string" where
  "flatpak_ref_format_ref r =
     kind_string (ref_kind r) @ ''/'' @ ref_name r @ ''/'' @ ref_arch r @ ''/'' @ ref_branch r"

text \<open>
  Modelled from the spec: the constructors \<^verbatim>\<open>flatpak_installed_ref_new\<close>
  (xdg-app-installed-ref.c) and \<^verbatim>\<open>flatpak_remote_ref_new\<close> (xdg-app-remote-ref.c) are not
  among the sources. Section 3: a ref is \<open>{kind: App|Runtime, name, arch, branch}\<close>, read off
  the four components of the full ref string; a string that does not decompose gives no
  object (\<^verbatim>\<open>NULL\<close>). The kind is App for the component \<^verbatim>\<open>app\<close> and Runtime for \<^verbatim>\<open>runtime\<close>.
\<close>

definition ref_components :: "string \<Rightarrow> (ref_kind \<times> string \<times> string \<times> string) option" where
  "ref_components full_ref =
     (case g_strsplit full_ref of
        [k, n, a, b] \<Rightarrow>
          if k = ''app'' then Some (FLATPAK_REF_KIND_APP, n, a, b)
          else if k = ''runtime'' then Some (FLATPAK_REF_KIND_RUNTIME, n, a, b)
          else None
      | _ \<Rightarrow> None)"

definition flatpak_installed_ref_new ::
  "string \<Rightarrow> string \<Rightarrow> string option \<Rightarrow> string \<Rightarrow> string list \<Rightarrow> string \<Rightarrow> guint64 \<Rightarrow> bool
     \<Rightarrow> installed_ref option" where
  "flatpak_installed_ref_new full_ref commit latest org paths path sz cur =
     (case ref_components full_ref of
        None \<Rightarrow> None
      | Some (k, n, a, b) \<Rightarrow>
          Some \<lparr>ref_kind = k, ref_name = n, ref_arch = a, ref_branch = b, ref_commit = commit,
                latest_commit = latest, origin = org, subpaths = paths, deploy_dir = path,
                installed_size = sz, is_current = cur\<rparr>)"

definition flatpak_remote_ref_new :: "string \<Rightarrow> string \<Rightarrow> string \<Rightarrow> remote_ref option" where
  "flatpak_remote_ref_new full_ref commit remote =
     (case ref_components full_ref of
        None \<Rightarrow> None
      | Some (k, n, a, b) \<Rightarrow>
          Some \<lparr>ref_kind = k, ref_name = n, ref_arch = a, ref_branch = b, ref_commit = commit,
                remote_name = remote\<rparr>)"

subsection \<open>The directory layer, as the file sees it\<close>

text \<open>
  The deploy data of a ref, as the four accessors \<^verbatim>\<open>flatpak_deploy_data_get_*\<close> read it.
\<close>

record deploy_data =
  dd_origin :: string
  dd_commit :: string
  dd_subpaths :: "string list"
  dd_installed_size :: guint64

text \<open>
  The read-only calls into xdg-app-dir.c and xdg-app-utils.c, with the answers the
  installation gives. \<open>deploy_dir_exists\<close> is \<^verbatim>\<open>g_file_query_exists\<close> on the ref's deploy
  directory. A \<^verbatim>\<open>NULL\<close> result is \<open>None\<close>; a call that reports a \<^verbatim>\<open>GError\<close>
  answers \<open>Inl\<close>.
\<close>

record dir_queries =
  flatpak_compose_ref :: "bool \<Rightarrow> string \<Rightarrow> string option \<Rightarrow> string option \<Rightarrow> error + string"
  deploy_dir_exists :: "string \<Rightarrow> bool"
  flatpak_dir_get_deploy_dir :: "string \<Rightarrow> string"
  flatpak_dir_get_deploy_data :: "string \<Rightarrow> deploy_data option"
  flatpak_dir_current_ref :: "string option \<Rightarrow> string option"
  flatpak_dir_read_latest :: "string \<Rightarrow> string \<Rightarrow> string option"
  flatpak_dir_get_origin :: "string \<Rightarrow> error + string"
  flatpak_dir_list_refs :: "string \<Rightarrow> error + string list"
  flatpak_dir_list_remotes :: "error + string list"
  flatpak_dir_list_remote_refs :: "string \<Rightarrow> error + (string \<times> string) list"

subsection \<open>Queries: \<^verbatim>\<open>get_ref\<close> and the listings\<close>

text \<open>
  \<^verbatim>\<open>get_ref\<close>, lines 294 to 342. The deploy data is fetched with the error ignored and
  then read through its accessors, and \<^verbatim>\<open>parts[0]\<close> is compared without a check: a
  missing deploy data and an empty ref string are uses of \<^verbatim>\<open>NULL\<close>. \<^verbatim>\<open>parts[1]\<close> is
  \<^verbatim>\<open>NULL\<close> when the string has no slash. The result is \<open>Inl\<close> where the process ends,
  and otherwise what the constructor returns: \<open>Inr None\<close> for \<^verbatim>\<open>NULL\<close>.
\<close>

definition get_ref :: "dir_queries \<Rightarrow> string \<Rightarrow> error + installed_ref option" where
  "get_ref q full_ref =
     (let parts = g_strsplit full_ref in
      case flatpak_dir_get_deploy_data q full_ref of
        None \<Rightarrow> Inl NullDereference
      | Some deploy_data \<Rightarrow>
          let org = dd_origin deploy_data;
              commit = dd_commit deploy_data;
              deploy_path = flatpak_dir_get_deploy_dir q full_ref @ ''/'' @ commit
          in
            (case parts of
              [] \<Rightarrow> Inl NullDereference
            | p0 # rest \<Rightarrow>
                let cur =
                      (if p0 = ''app'' then
                         (case flatpak_dir_current_ref q (case rest of [] \<Rightarrow> None | p1 # _ \<Rightarrow> Some p1) of
                            None \<Rightarrow> False
                          | Some current \<Rightarrow> full_ref = current)
                       else False);
                    latest = flatpak_dir_read_latest q org full_ref
                in Inr (flatpak_installed_ref_new full_ref commit latest org
                          (dd_subpaths deploy_data) deploy_path (dd_installed_size deploy_data)
                          cur)))"

text \<open>Calling \<open>f\<close> on each element in turn; the first call that ends the process ends the loop.\<close>

fun each :: "('a \<Rightarrow> error + 'b) \<Rightarrow> 'a list \<Rightarrow> error + 'b list" where
  "each f [] = Inr []"
| "each f (x # xs) =
     (case f x of
        Inl e \<Rightarrow> Inl e
      | Inr y \<Rightarrow> (case each f xs of Inl e \<Rightarrow> Inl e | Inr ys \<Rightarrow> Inr (y # ys)))"

text \<open>
  \<^verbatim>\<open>flatpak_installation_list_installed_refs\<close>, lines 444 to 477. What \<^verbatim>\<open>get_ref\<close>
  returns is added to the array untested, so the array can hold \<^verbatim>\<open>NULL\<close> elements.
\<close>

definition flatpak_installation_list_installed_refs ::
  "dir_queries \<Rightarrow> error + installed_ref option list" where
  "flatpak_installation_list_installed_refs q =
     (case flatpak_dir_list_refs q ''app'' of
        Inl e \<Rightarrow> Inl e
      | Inr raw_refs_app \<Rightarrow>
          (case each (get_ref q) raw_refs_app of
             Inl e \<Rightarrow> Inl e
           | Inr apps \<Rightarrow>
               (case flatpak_dir_list_refs q ''runtime'' of
                  Inl e \<Rightarrow> Inl e
                | Inr raw_refs_runtime \<Rightarrow>
                    (case each (get_ref q) raw_refs_runtime of
                       Inl e \<Rightarrow> Inl e
                     | Inr runtimes \<Rightarrow> Inr (apps @ runtimes)))))"

text \<open>
  \<^verbatim>\<open>flatpak_installation_list_remotes\<close>, lines 613 to 633. A \<^verbatim>\<open>FlatpakRemote\<close> object is
  represented by its name.
\<close>

definition flatpak_installation_list_remotes :: "dir_queries \<Rightarrow> error + string list" where
  "flatpak_installation_list_remotes q =
     (case flatpak_dir_list_remotes q of Inl e \<Rightarrow> Inl e | Inr remote_names \<Rightarrow> Inr remote_names)"

text \<open>
  \<^verbatim>\<open>flatpak_installation_list_remote_refs_sync\<close>, lines 1346 to 1381. The catalog comes
  as the list of the hash table's entries, in the order the iterator gives them.
\<close>

definition flatpak_installation_list_remote_refs_sync ::
  "dir_queries \<Rightarrow> string \<Rightarrow> error + remote_ref list" where
  "flatpak_installation_list_remote_refs_sync q remote =
     (case flatpak_dir_list_remote_refs q remote of
        Inl e \<Rightarrow> Inl e
      | Inr ht \<Rightarrow>
          Inr (List.map_filter (\<lambda>(refspec, checksum). flatpak_remote_ref_new refspec checksum remote) ht))"

subsection \<open>The update diff: \<^verbatim>\<open>flatpak_installation_list_installed_refs_for_update\<close>\<close>

text \<open>The key \<^verbatim>\<open>g_strdup_printf ("%s:%s", remote, full_ref)\<close>.\<close>

definition update_key :: "string \<Rightarrow> string \<Rightarrow> string" where
  "update_key remote full_ref = remote @ '':'' @ full_ref"

text \<open>Lines 558 to 567: the entries of one remote go into the hash table.\<close>

definition insert_remote_refs ::
  "string \<Rightarrow> remote_ref list \<Rightarrow> (string \<rightharpoonup> string) \<Rightarrow> (string \<rightharpoonup> string)" where
  "insert_remote_refs remote refs ht =
     fold (\<lambda>rr h. h(update_key remote (flatpak_ref_format_ref rr) \<mapsto> ref_commit rr)) refs ht"

text \<open>
  Lines 546 to 575: the loop over the remotes. The \<^verbatim>\<open>g_debug\<close> line of a remote that
  could not be read is recorded as the remote's name and the error.
\<close>

fun read_remotes ::
  "dir_queries \<Rightarrow> string list \<Rightarrow> (string \<rightharpoonup> string) \<times> (string \<times> error) list
     \<Rightarrow> (string \<rightharpoonup> string) \<times> (string \<times> error) list" where
  "read_remotes q [] (ht, dbg) = (ht, dbg)"
| "read_remotes q (remote # remotes) (ht, dbg) =
     (case flatpak_installation_list_remote_refs_sync q remote of
        Inr refs \<Rightarrow> read_remotes q remotes (insert_remote_refs remote refs ht, dbg)
      | Inl local_error \<Rightarrow> read_remotes q remotes (ht, dbg @ [(remote, local_error)]))"

text \<open>Lines 589 to 594: the test on one installed ref, \<^verbatim>\<open>g_strcmp0\<close> included.\<close>

definition has_update :: "(string \<rightharpoonup> string) \<Rightarrow> installed_ref \<Rightarrow> bool" where
  "has_update ht installed_ref =
     (case ht (update_key (origin installed_ref) (flatpak_ref_format_ref installed_ref)) of
        None \<Rightarrow> False
      | Some remote_commit \<Rightarrow> Some remote_commit \<noteq> latest_commit installed_ref)"

text \<open>
  Lines 583 to 595: the loop over the installed refs. A \<^verbatim>\<open>NULL\<close> element is handed to
  \<^verbatim>\<open>flatpak_ref_format_ref\<close> and \<^verbatim>\<open>flatpak_installed_ref_get_origin\<close> as it is.
\<close>

fun collect_updates ::
  "(string \<rightharpoonup> string) \<Rightarrow> installed_ref option list \<Rightarrow> error + installed_ref list" where
  "collect_updates ht [] = Inr []"
| "collect_updates ht (None # installed) = Inl NullDereference"
| "collect_updates ht (Some installed_ref # installed) =
     (case collect_updates ht installed of
        Inl e \<Rightarrow> Inl e
      | Inr updates \<Rightarrow>
          Inr (if has_update ht installed_ref then installed_ref # updates else updates))"

text \<open>The whole function: the debug lines written, and the result.\<close>

definition flatpak_installation_list_installed_refs_for_update ::
  "dir_queries \<Rightarrow> (string \<times> error) list \<times> (error + installed_ref list)" where
  "flatpak_installation_list_installed_refs_for_update q =
     (case flatpak_installation_list_remotes q of
        Inl e \<Rightarrow> ([], Inl e)
      | Inr remotes \<Rightarrow>
          (let (ht, dbg) = read_remotes q remotes (Map.empty, []) in
             (case flatpak_installation_list_installed_refs q of
                Inl e \<Rightarrow> (dbg, Inl e)
              | Inr installed \<Rightarrow> (dbg, collect_updates ht installed))))"

subsection \<open>Transactions\<close>

text \<open>
  The calls that change something or hold something: the working copy, the thread's main
  context, the progress object, the lock, the repo, the deploy tree. A transaction's
  trace lists them in the order the function makes them. \<open>EvLock\<close> is a
  \<^verbatim>\<open>flatpak_dir_lock\<close> that succeeded and \<open>EvUnlock\<close> a \<^verbatim>\<open>glnx_release_lock_file\<close> on
  a held lock. \<open>EvProgressNew\<close> carries the value stored under \<^verbatim>\<open>"last_progress"\<close>.
\<close>

datatype event =
    EvDirClone
  | EvMainContextPush
  | EvMainContextPop
  | EvProgressNew guint
  | EvProgressFinish
  | EvDirInstall string string
  | EvCreateOriginRemote
  | EvEnsureRepo
  | EvPullFromBundle string string
  | EvDeployInstall string string
  | EvRemoteDelete string
  | EvLock
  | EvUnlock
  | EvSetActive string
  | EvDropCurrentRef string
  | EvUndeployAll string
  | EvRemoveRef string string
  | EvPrune
  | EvCleanupRemoved
  | EvUpdateExports string
  | EvMarkChanged

text \<open>What \<^verbatim>\<open>flatpak_bundle_load\<close> hands back.\<close>

record bundle_info =
  bundle_ref :: string
  bundle_origin :: "string option"
  bundle_gpg_data :: "string option"
  bundle_checksum :: string

text \<open>
  The outcomes of the calls that act on the installation. For a call that returns a
  \<^verbatim>\<open>gboolean\<close>, \<open>None\<close> is success and \<open>Some e\<close> the error it sets.
  \<^verbatim>\<open>flatpak_dir_undeploy_all\<close> also reports \<^verbatim>\<open>was_deployed\<close>.
  \<^verbatim>\<open>ostree_repo_remote_delete\<close> is called with no error location and its return value is
  not read, so it has no outcome here.
\<close>

record dir_ops =
  flatpak_dir_install :: "string \<Rightarrow> string \<Rightarrow> error option"
  flatpak_bundle_load :: "string \<Rightarrow> error + bundle_info"
  flatpak_decompose_ref :: "string \<Rightarrow> error + (string \<times> string \<times> string \<times> string)"
  flatpak_dir_create_origin_remote ::
    "string option \<Rightarrow> string \<Rightarrow> string \<Rightarrow> string option \<Rightarrow> error + string"
  flatpak_dir_ensure_repo :: "error option"
  flatpak_pull_from_bundle :: "string \<Rightarrow> string \<Rightarrow> string \<Rightarrow> bool \<Rightarrow> error option"
  flatpak_dir_deploy_install :: "string \<Rightarrow> string \<Rightarrow> error option"
  flatpak_dir_lock :: "error option"
  flatpak_dir_set_active :: "string \<Rightarrow> error option"
  flatpak_dir_drop_current_ref :: "string \<Rightarrow> error option"
  flatpak_dir_undeploy_all :: "string \<Rightarrow> error + bool"
  flatpak_dir_remove_ref :: "string \<Rightarrow> string \<Rightarrow> error option"
  flatpak_dir_prune :: "error option"
  flatpak_dir_update_exports :: "string \<Rightarrow> error option"
  flatpak_dir_mark_changed :: "error option"

subsubsection \<open>\<^verbatim>\<open>flatpak_installation_install\<close>, lines 926 to 990\<close>

text \<open>
  The label \<^verbatim>\<open>out\<close>: what is undone depends on what was set up. Every way out of
  the function after the existence check passes through it, a \<^verbatim>\<open>NULL\<close> from
  \<^verbatim>\<open>get_ref\<close> included; only where \<^verbatim>\<open>get_ref\<close> ends the process is it not reached.
\<close>

definition install_out :: "bool \<Rightarrow> bool \<Rightarrow> event list" where
  "install_out main_context ostree_progress =
     (if main_context then [EvMainContextPop] else [])
       @ (if ostree_progress then [EvProgressFinish] else [])"

definition flatpak_installation_install ::
  "dir_queries \<Rightarrow> dir_ops \<Rightarrow> string \<Rightarrow> ref_kind \<Rightarrow> string \<Rightarrow> string option \<Rightarrow> string option
     \<Rightarrow> bool \<Rightarrow> (error + installed_ref) \<times> event list" where
  "flatpak_installation_install q ops remote kind name arch branch progress =
     (case flatpak_compose_ref q (kind = FLATPAK_REF_KIND_APP) name branch arch of
        Inl e \<Rightarrow> (Inl e, [])
      | Inr ref \<Rightarrow>
          if deploy_dir_exists q ref then (Inl ALREADY_INSTALLED, install_out False False)
          else
            (let t = [EvDirClone, EvMainContextPush]
                       @ (if progress then [EvProgressNew 0] else [])
                       @ [EvDirInstall ref remote]
             in
               (case flatpak_dir_install ops ref remote of
                  Some e \<Rightarrow> (Inl e, t @ install_out True progress)
                | None \<Rightarrow>
                    (case get_ref q ref of
                       Inl e \<Rightarrow> (Inl e, t)
                     | Inr None \<Rightarrow> (Inl NoErrorSet, t @ install_out True progress)
                     | Inr (Some result) \<Rightarrow> (Inr result, t @ install_out True progress)))))"

subsubsection \<open>\<^verbatim>\<open>flatpak_installation_install_bundle\<close>, lines 818 to 907\<close>

text \<open>
  GLib's \<^verbatim>\<open>g_file_get_basename\<close> on a local path, as \<^verbatim>\<open>g_path_get_basename\<close>
  documents it: the last component with trailing slashes left out, \<^verbatim>\<open>"."\<close> for the empty
  string and \<^verbatim>\<open>"/"\<close> for a string of slashes only.
\<close>

definition g_file_get_basename :: "string \<Rightarrow> string" where
  "g_file_get_basename file =
     (if file = [] then ''.''
      else (case filter (\<lambda>p. p \<noteq> []) (split_slash file) of
              [] \<Rightarrow> ''/''
            | p # ps \<Rightarrow> last (p # ps)))"

text \<open>
  Modelled from the spec: the remote catalog itself lives in the repo configuration, which
  \<^verbatim>\<open>flatpak_dir_create_origin_remote\<close> (xdg-app-dir.c) and \<^verbatim>\<open>ostree_repo_remote_delete\<close>
  change; neither is among the sources. Section 6: \<open>createRemote(...) -> remoteName | error\<close>
  and \<open>deleteRemote(name) -> error\<close>. The catalog is the list of the remotes' names: a
  created remote is added under the name returned, and a deleted one is removed.
\<close>

definition remote_created :: "string \<Rightarrow> string list \<Rightarrow> string list" where
  "remote_created remote remotes = remotes @ [remote]"

definition remote_deleted :: "string \<Rightarrow> string list \<Rightarrow> string list" where
  "remote_deleted remote remotes = removeAll remote remotes"

text \<open>
  The label \<^verbatim>\<open>out\<close> (lines 901 to 906): \<open>result\<close> is \<open>None\<close> for \<^verbatim>\<open>NULL\<close>, and
  \<open>err\<close> is the \<^verbatim>\<open>GError\<close> as it stands then.
\<close>

definition install_bundle_out ::
  "bool \<Rightarrow> string \<Rightarrow> error \<Rightarrow> installed_ref option \<Rightarrow> string list \<Rightarrow> event list
     \<Rightarrow> (error + installed_ref) \<times> string list \<times> event list" where
  "install_bundle_out added_remote remote err result remotes t =
     (let (remotes, t) =
            (if added_remote \<and> result = None
             then (remote_deleted remote remotes, t @ [EvRemoteDelete remote])
             else (remotes, t))
      in ((case result of None \<Rightarrow> Inl err | Some r \<Rightarrow> Inr r), remotes, t))"

text \<open>
  The function takes the remote catalog and returns it as it is afterwards, with the
  result and the trace. After the remote is added every way out passes through the
  label, a \<^verbatim>\<open>NULL\<close> from \<^verbatim>\<open>get_ref\<close> included; only where \<^verbatim>\<open>get_ref\<close> ends the
  process is it not reached.
\<close>

definition flatpak_installation_install_bundle ::
  "dir_queries \<Rightarrow> dir_ops \<Rightarrow> string list \<Rightarrow> string
     \<Rightarrow> (error + installed_ref) \<times> string list \<times> event list" where
  "flatpak_installation_install_bundle q ops remotes file =
     (case flatpak_bundle_load ops file of
        Inl e \<Rightarrow> (Inl e, remotes, [])
      | Inr b \<Rightarrow>
          (let ref = bundle_ref b; gpg_data = bundle_gpg_data b in
           case flatpak_decompose_ref ops ref of
             Inl e \<Rightarrow> (Inl e, remotes, [])
           | Inr (p0, p1, p2, p3) \<Rightarrow>
               if deploy_dir_exists q ref then (Inl ALREADY_INSTALLED, remotes, [])
               else
                 (case flatpak_dir_create_origin_remote ops (bundle_origin b) p1
                         (g_file_get_basename file) gpg_data of
                    Inl e \<Rightarrow> (Inl e, remotes, [EvCreateOriginRemote])
                  | Inr remote \<Rightarrow>
                      (let remotes = remote_created remote remotes;
                           added_remote = True;
                           t = [EvCreateOriginRemote, EvDirClone, EvEnsureRepo]
                       in
                         (case flatpak_dir_ensure_repo ops of
                            Some e \<Rightarrow> install_bundle_out added_remote remote e None remotes t
                          | None \<Rightarrow>
                              (let t = t @ [EvPullFromBundle remote ref] in
                               case flatpak_pull_from_bundle ops file remote ref (gpg_data \<noteq> None) of
                                 Some e \<Rightarrow> install_bundle_out added_remote remote e None remotes t
                               | None \<Rightarrow>
                                   (let t = t @ [EvDeployInstall ref remote] in
                                    case flatpak_dir_deploy_install ops ref remote of
                                      Some e \<Rightarrow>
                                        install_bundle_out added_remote remote e None remotes t
                                    | None \<Rightarrow>
                                        (case get_ref q ref of
                                           Inl e \<Rightarrow> (Inl e, remotes, t)
                                         | Inr result \<Rightarrow>
                                             install_bundle_out added_remote remote
                                               NoErrorSet result remotes t))))))))"

subsubsection \<open>\<^verbatim>\<open>flatpak_installation_uninstall\<close>, lines 1102 to 1193\<close>

text \<open>
  The body of the function: the result, the trace, and whether the lock variable still
  holds the lock when the function returns.
\<close>

definition uninstall_body ::
  "dir_queries \<Rightarrow> dir_ops \<Rightarrow> ref_kind \<Rightarrow> string \<Rightarrow> string option \<Rightarrow> string option
     \<Rightarrow> (error + unit) \<times> event list \<times> bool" where
  "uninstall_body q ops kind name arch branch =
     (case flatpak_compose_ref q (kind = FLATPAK_REF_KIND_APP) name branch arch of
        Inl e \<Rightarrow> (Inl e, [], False)
      | Inr ref \<Rightarrow>
     (case flatpak_dir_lock ops of
        Some e \<Rightarrow> (Inl e, [EvDirClone], False)
      | None \<Rightarrow>
     (let t = [EvDirClone, EvLock] in
      if \<not> deploy_dir_exists q ref then (Inl NOT_INSTALLED, t, True)
      else
     (case flatpak_dir_get_origin q ref of
        Inl e \<Rightarrow> (Inl e, t, True)
      | Inr remote \<Rightarrow>
     (let t = t @ [EvSetActive ref] in
      case flatpak_dir_set_active ops ref of
        Some e \<Rightarrow> (Inl e, t, True)
      | None \<Rightarrow>
     (let (dropped, t) =
            (if kind = FLATPAK_REF_KIND_APP then
               (case flatpak_dir_current_ref q (Some name) of
                  None \<Rightarrow> (None, t)
                | Some current_ref \<Rightarrow>
                    if ref = current_ref
                    then (flatpak_dir_drop_current_ref ops name, t @ [EvDropCurrentRef name])
                    else (None, t))
             else (None, t))
      in
      case dropped of
        Some e \<Rightarrow> (Inl e, t, True)
      | None \<Rightarrow>
     (let t = t @ [EvUndeployAll ref] in
      case flatpak_dir_undeploy_all ops ref of
        Inl e \<Rightarrow> (Inl e, t, True)
      | Inr was_deployed \<Rightarrow>
     (let t = t @ [EvRemoveRef remote ref] in
      case flatpak_dir_remove_ref ops remote ref of
        Some e \<Rightarrow> (Inl e, t, True)
      | None \<Rightarrow>
     (let t = t @ [EvUnlock, EvPrune] in
      case flatpak_dir_prune ops of
        Some e \<Rightarrow> (Inl e, t, False)
      | None \<Rightarrow>
     (let t = t @ [EvCleanupRemoved];
          (exported, t) =
            (if kind = FLATPAK_REF_KIND_APP
             then (flatpak_dir_update_exports ops name, t @ [EvUpdateExports name])
             else (None, t))
      in
      case exported of
        Some e \<Rightarrow> (Inl e, t, False)
      | None \<Rightarrow>
     (let t = t @ [EvMarkChanged] in
      case flatpak_dir_mark_changed ops of
        Some e \<Rightarrow> (Inl e, t, False)
      | None \<Rightarrow>
          if \<not> was_deployed then (Inl NOT_INSTALLED, t, False)
          else (Inr (), t, False))))))))))))"

text \<open>
  The lock is declared \<^verbatim>\<open>g_auto(GLnxLockFile)\<close>: when the function returns, whichever
  way, the variable's cleanup releases the lock if the variable still holds it.
\<close>

definition flatpak_installation_uninstall ::
  "dir_queries \<Rightarrow> dir_ops \<Rightarrow> ref_kind \<Rightarrow> string \<Rightarrow> string option \<Rightarrow> string option
     \<Rightarrow> (error + unit) \<times> event list" where
  "flatpak_installation_uninstall q ops kind name arch branch =
     (let (res, t, held) = uninstall_body q ops kind name arch branch
      in (res, if held then t @ [EvUnlock] else t))"

text \<open>Whether the lock is held after a trace, and the calls of the phases after the lock.\<close>

fun lock_held :: "bool \<Rightarrow> event list \<Rightarrow> bool" where
  "lock_held h [] = h"
| "lock_held h (EvLock # es) = lock_held True es"
| "lock_held h (EvUnlock # es) = lock_held False es"
| "lock_held h (e # es) = lock_held h es"

definition nonexclusive :: "event \<Rightarrow> bool" where
  "nonexclusive e =
     (case e of
        EvPrune \<Rightarrow> True
      | EvCleanupRemoved \<Rightarrow> True
      | EvUpdateExports n \<Rightarrow> True
      | EvMarkChanged \<Rightarrow> True
      | _ \<Rightarrow> False)"

text \<open>No call of those phases is made while the lock is held.\<close>

fun unlocked_phases :: "bool \<Rightarrow> event list \<Rightarrow> bool" where
  "unlocked_phases h [] = True"
| "unlocked_phases h (e # es) =
     ((if nonexclusive e then \<not> h else True) \<and> unlocked_phases (lock_held h [e]) es)"

subsubsection \<open>\<^verbatim>\<open>flatpak_installation_fetch_remote_size_sync\<close>, lines 1213 to 1223\<close>

text \<open>
  Modelled from the spec: \<^verbatim>\<open>flatpak_fail\<close> is defined in xdg-app-utils.c, which is not
  among the sources. Section 7 has every failing call return a typed error and no value;
  \<^verbatim>\<open>flatpak_fail\<close> sets the error to a plain failure with the given message and
  returns \<^verbatim>\<open>FALSE\<close>.
\<close>

definition flatpak_fail :: "string \<Rightarrow> error + unit" where
  "flatpak_fail msg = Inl (FAILED msg)"

text \<open>
  The result, the two output locations as they are afterwards, and the trace of calls
  made.
\<close>

definition flatpak_installation_fetch_remote_size_sync ::
  "dir_queries \<Rightarrow> dir_ops \<Rightarrow> string \<Rightarrow> string \<Rightarrow> guint64 \<Rightarrow> guint64
     \<Rightarrow> (error + unit) \<times> guint64 \<times> guint64 \<times> event list" where
  "flatpak_installation_fetch_remote_size_sync q ops remote commit download_size installed_sz =
     (flatpak_fail ''Deprecated function call flatpak_installation_fetch_remote_size_sync'',
      download_size, installed_sz, [])"

subsection \<open>The mapping of the update diff, keyed by pairs\<close>

text \<open>
  The mapping as section 4.6 of the spec words it, for comparison with the hash table of
  the code: keyed by the pair of remote name and full ref, with the remote's commit as
  value, built from every remote whose catalog could be listed.
\<close>

definition catalog_mapping :: "dir_queries \<Rightarrow> string list \<Rightarrow> (string \<times> string \<rightharpoonup> string)" where
  "catalog_mapping q remotes =
     fold (\<lambda>remote m.
             case flatpak_installation_list_remote_refs_sync q remote of
               Inl e \<Rightarrow> m
             | Inr refs \<Rightarrow>
                 fold (\<lambda>rr m. m((remote, flatpak_ref_format_ref rr) \<mapsto> ref_commit rr)) refs m)
          remotes Map.empty"

text \<open>
  The same mapping built from catalogs that are given, each with the name of its remote,
  and the diff of section 4.6, step 5, over it: the installed refs whose pair of origin
  and full ref has an entry with a commit other than the ref's latest known commit.
\<close>

definition mapping_of_catalogs ::
  "(string \<times> remote_ref list) list \<Rightarrow> (string \<times> string \<rightharpoonup> string)" where
  "mapping_of_catalogs catalogs =
     fold (\<lambda>(remote, refs) m.
             fold (\<lambda>rr m. m((remote, flatpak_ref_format_ref rr) \<mapsto> ref_commit rr)) refs m)
          catalogs Map.empty"

definition update_diff ::
  "(string \<times> remote_ref list) list \<Rightarrow> installed_ref list \<Rightarrow> installed_ref list" where
  "update_diff catalogs installed =
     filter (\<lambda>i. case mapping_of_catalogs catalogs (origin i, flatpak_ref_format_ref i) of
                   None \<Rightarrow> False
                 | Some remote_commit \<Rightarrow> Some remote_commit \<noteq> latest_commit i)
            installed"

text \<open>
  Two notions for the comparison. A ref string is canonical when it is the form of a kind
  and three components without a slash. A hash table agrees with a mapping when the
  table's entry under the string key of a remote and a canonical ref is the mapping's
  entry under the pair.
\<close>

definition canonical_ref :: "string \<Rightarrow> bool" where
  "canonical_ref f \<longleftrightarrow>
     (\<exists>k n a b. f = kind_string k @ ''/'' @ n @ ''/'' @ a @ ''/'' @ b
        \<and> CHR ''/'' \<notin> set n \<and> CHR ''/'' \<notin> set a \<and> CHR ''/'' \<notin> set b)"

definition tables_agree :: "(string \<rightharpoonup> string) \<Rightarrow> (string \<times> string \<rightharpoonup> string) \<Rightarrow> bool" where
  "tables_agree ht m \<longleftrightarrow> (\<forall>r f. canonical_ref f \<longrightarrow> ht (update_key r f) = m (r, f))"

subsection \<open>A sample installation\<close>

text \<open>
  One installed app, \<^verbatim>\<open>org.example.Foo\<close> from \<^verbatim>\<open>test-remote\<close> at commit
  \<^verbatim>\<open>abc123\<close>, which the remote now advertises at \<^verbatim>\<open>def456\<close>; one installed
  runtime that is up to date; a second remote that cannot be read; a bundle of
  \<^verbatim>\<open>org.example.Bar\<close> whose import fails; and an undeploy that finds nothing to
  remove.
\<close>

definition foo_ref :: string where
  "foo_ref = ''app/org.example.Foo/x86_64/master''"

definition platform_ref :: string where
  "platform_ref = ''runtime/org.example.Platform/x86_64/1.0''"

definition demo_queries :: dir_queries where
  "demo_queries =
     \<lparr>flatpak_compose_ref =
        (\<lambda>is_app name branch arch.
           Inr ((if is_app then ''app'' else ''runtime'') @ ''/'' @ name @ ''/''
                  @ (case arch of None \<Rightarrow> ''x86_64'' | Some a \<Rightarrow> a) @ ''/''
                  @ (case branch of None \<Rightarrow> ''master'' | Some b \<Rightarrow> b))),
      deploy_dir_exists = (\<lambda>r. r = foo_ref \<or> r = platform_ref),
      flatpak_dir_get_deploy_dir = (\<lambda>r. ''/var/lib/xdg-app/'' @ r),
      flatpak_dir_get_deploy_data =
        (\<lambda>r. if r = foo_ref
              then Some \<lparr>dd_origin = ''test-remote'', dd_commit = ''abc123'', dd_subpaths = [],
                         dd_installed_size = 4096\<rparr>
              else if r = platform_ref
              then Some \<lparr>dd_origin = ''test-remote'', dd_commit = ''777aaa'', dd_subpaths = [],
                         dd_installed_size = 8192\<rparr>
              else None),
      flatpak_dir_current_ref = (\<lambda>n. if n = Some ''org.example.Foo'' then Some foo_ref else None),
      flatpak_dir_read_latest =
        (\<lambda>remote r. if remote = ''test-remote'' \<and> r = foo_ref then Some ''abc123''
                     else if remote = ''test-remote'' \<and> r = platform_ref then Some ''777aaa''
                     else None),
      flatpak_dir_get_origin =
        (\<lambda>r. if r = foo_ref \<or> r = platform_ref then Inr ''test-remote''
              else Inl (Engine ''no origin'')),
      flatpak_dir_list_refs =
        (\<lambda>k. if k = ''app'' then Inr [foo_ref] else Inr [platform_ref]),
      flatpak_dir_list_remotes = Inr [''broken-remote'', ''test-remote''],
      flatpak_dir_list_remote_refs =
        (\<lambda>remote. if remote = ''test-remote''
                   then Inr [(foo_ref, ''def456''), (platform_ref, ''777aaa'')]
                   else Inl (Engine ''unreachable''))\<rparr>"

definition demo_ops :: dir_ops where
  "demo_ops =
     \<lparr>flatpak_dir_install = (\<lambda>ref remote. None),
      flatpak_bundle_load =
        (\<lambda>file. Inr \<lparr>bundle_ref = ''app/org.example.Bar/x86_64/master'',
                      bundle_origin = Some ''http://example.org/repo'',
                      bundle_gpg_data = None, bundle_checksum = ''fed987''\<rparr>),
      flatpak_decompose_ref =
        (\<lambda>r. case g_strsplit r of [k, n, a, b] \<Rightarrow> Inr (k, n, a, b) | _ \<Rightarrow> Inl INVALID_REF),
      flatpak_dir_create_origin_remote = (\<lambda>url ident title gpg. Inr (ident @ ''-origin'')),
      flatpak_dir_ensure_repo = None,
      flatpak_pull_from_bundle = (\<lambda>file remote ref gpg. Some (Engine ''pull failed'')),
      flatpak_dir_deploy_install = (\<lambda>ref remote. None),
      flatpak_dir_lock = None,
      flatpak_dir_set_active = (\<lambda>ref. None),
      flatpak_dir_drop_current_ref = (\<lambda>name. None),
      flatpak_dir_undeploy_all = (\<lambda>ref. Inr False),
      flatpak_dir_remove_ref = (\<lambda>remote ref. None),
      flatpak_dir_prune = None,
      flatpak_dir_update_exports = (\<lambda>name. None),
      flatpak_dir_mark_changed = None\<rparr>"


text \<open>
  The two GLib parameters on the range the sample uses. Below 1000 bytes
  \<^verbatim>\<open>g_format_size\<close> prints the number and the word byte or bytes. With four objects
  requested the quotient of the floating-point percentage is a multiple of a quarter,
  which binary floating point holds exactly, so the percentage is 25 times the number
  fetched.
\<close>

definition demo_glib :: glib where
  "demo_glib =
     \<lparr>g_format_size =
        (\<lambda>n. if n = 1 then ''1 byte''
              else if n < 1000 then digits (unat n) @ '' bytes'' else []),
      double_percent = (\<lambda>a b. if b = 4 \<and> a \<le> 4 then 25 * a else 0)\<rparr>"

text \<open>An object transfer with \<open>f\<close> of \<open>r\<close> objects fetched, seen at time \<open>now\<close>.\<close>

definition snapshot :: "guint \<Rightarrow> guint \<Rightarrow> guint64 \<Rightarrow> counters" where
  "snapshot f r now =
     \<lparr>status = None, outstanding_fetches = 2, outstanding_metadata_fetches = 0,
      outstanding_writes = 0, scanned_metadata = 7, fetched_delta_parts = 0,
      total_delta_parts = 0, total_delta_part_size = 0, bytes_transferred = 996,
      fetched = f, metadata_fetched = 7, requested = r, start_time = 1000000,
      monotonic_time = now\<rparr>"

text \<open>The snapshots \<^verbatim>\<open>get_ref\<close> gives of the two installed refs.\<close>

definition foo_installed :: installed_ref where
  "foo_installed =
     \<lparr>ref_kind = FLATPAK_REF_KIND_APP, ref_name = ''org.example.Foo'',
      ref_arch = ''x86_64'', ref_branch = ''master'', ref_commit = ''abc123'',
      latest_commit = Some ''abc123'', origin = ''test-remote'', subpaths = [],
      deploy_dir = ''/var/lib/xdg-app/app/org.example.Foo/x86_64/master/abc123'',
      installed_size = 4096, is_current = True\<rparr>"

definition platform_installed :: installed_ref where
  "platform_installed =
     \<lparr>ref_kind = FLATPAK_REF_KIND_RUNTIME, ref_name = ''org.example.Platform'',
      ref_arch = ''x86_64'', ref_branch = ''1.0'', ref_commit = ''777aaa'',
      latest_commit = Some ''777aaa'', origin = ''test-remote'', subpaths = [],
      deploy_dir = ''/var/lib/xdg-app/runtime/org.example.Platform/x86_64/1.0/777aaa'',
      installed_size = 8192, is_current = False\<rparr>"

text \<open>The catalog of \<^verbatim>\<open>test-remote\<close> as \<^verbatim>\<open>FlatpakRemoteRef\<close> objects.\<close>

definition test_remote_refs :: "remote_ref list" where
  "test_remote_refs =
     [\<lparr>ref_kind = FLATPAK_REF_KIND_APP, ref_name = ''org.example.Foo'',
       ref_arch = ''x86_64'', ref_branch = ''master'', ref_commit = ''def456'',
       remote_name = ''test-remote''\<rparr>,
      \<lparr>ref_kind = FLATPAK_REF_KIND_RUNTIME, ref_name = ''org.example.Platform'',
       ref_arch = ''x86_64'', ref_branch = ''1.0'', ref_commit = ''777aaa'',
       remote_name = ''test-remote''\<rparr>]"

section \<open>Properties\<close>

subsection \<open>Progress\<close>

lemma progress_cb_clamped:
  "progress_cb g lp c = Inr (r, stored) \<Longrightarrow> lp \<le> percent r \<and> stored = percent r"
  by (auto simp: progress_cb_def Let_def split: sum.splits prod.splits if_splits)

lemma run_progress_sorted:
  "sorted (lp # map percent (run_progress g lp cs))"
proof (induction cs arbitrary: lp)
  case Nil
  show ?case by simp
next
  case (Cons c cs)
  show ?case
  proof (cases "progress_cb g lp c")
    case (Inl e)
    then show ?thesis by simp
  next
    case (Inr p)
    obtain r stored where p: "p = (r, stored)" by (cases p)
    from Inr p have cl: "lp \<le> percent r" "stored = percent r"
      using progress_cb_clamped by blast+
    from Cons.IH [of stored] have "sorted (percent r # map percent (run_progress g stored cs))"
      by (simp add: cl)
    with cl(1) show ?thesis
      using Inr p by auto
  qed
qed

text \<open>
  Claim C2. In one operation the percent values passed to the caller's callback never
  decrease, from the stored value the operation starts with (0 in
  \<^verbatim>\<open>flatpak_installation_install\<close>) on: the list of reported values is sorted. And
  each call reports the value it computed unless that is lower than the stored one, in
  which case it reports the stored one; what it reports is what it stores.
\<close>

theorem progress_percent_monotonic:
  "sorted (lp # map percent (run_progress g lp cs)) \<and>
   (\<forall>c buf new_progress est.
      progress_phase g c = Inr (buf, new_progress, est) \<longrightarrow>
      progress_cb g lp c =
        Inr (\<lparr>status_text = buf,
              percent = (if new_progress < lp then lp else new_progress),
              estimating = est\<rparr>,
             (if new_progress < lp then lp else new_progress)))"
  using run_progress_sorted [of lp g cs]
  by (simp add: progress_cb_def Let_def)

theorem progress_percent_monotonic_witness:
  "map percent (run_progress demo_glib 0
      [snapshot 2 4 6000000, snapshot 1 4 7000000, snapshot 3 4 8000000]) = [50, 50, 75]
   \<and> sorted (0 # map percent (run_progress demo_glib 0
      [snapshot 2 4 6000000, snapshot 1 4 7000000, snapshot 3 4 8000000]))
   \<and> progress_phase demo_glib (snapshot 1 4 7000000) =
       Inr (''Receiving objects: 25% (1/4) 166 bytes/s 996 bytes'', 25, False)
   \<and> progress_cb demo_glib 50 (snapshot 1 4 7000000) =
       Inr (\<lparr>status_text = ''Receiving objects: 25% (1/4) 166 bytes/s 996 bytes'',
             percent = 50, estimating = False\<rparr>, 50)"
  using progress_percent_monotonic
    [of 0 demo_glib "[snapshot 2 4 6000000, snapshot 1 4 7000000, snapshot 3 4 8000000]"]
    progress_percent_monotonic [of 50 demo_glib "[]", THEN conjunct2, rule_format,
      of "snapshot 1 4 7000000" "''Receiving objects: 25% (1/4) 166 bytes/s 996 bytes''" 25 False]
  by (simp add: progress_cb_def progress_phase_def demo_glib_def snapshot_def
        G_USEC_PER_SEC_def fmt_u_def Let_def)

text \<open>
  Claim C3, as the code has it. With no status string, a fetch outstanding and less than
  a second elapsed, \<^verbatim>\<open>bytes_transferred / ellapsed_time\<close> (line 745) divides by zero:
  the quotient is computed before \<^verbatim>\<open>bytes_sec\<close> is tested, so the call ends there and
  no text, with or without \<^verbatim>\<open>"-"\<close>, is produced.
\<close>

theorem progress_cb_first_second:
  "status c = None \<Longrightarrow> outstanding_fetches c \<noteq> 0 \<Longrightarrow>
   (monotonic_time c - start_time c) div G_USEC_PER_SEC = 0 \<Longrightarrow>
   progress_cb g lp c = Inl DivisionByZero"
  by (simp add: progress_cb_def progress_phase_def)

theorem progress_cb_first_second_witness:
  "progress_cb demo_glib 0 (snapshot 0 4 1500000) = Inl DivisionByZero"
  using progress_cb_first_second [of "snapshot 0 4 1500000" demo_glib 0]
  by (simp add: snapshot_def G_USEC_PER_SEC_def)

subsection \<open>Queries\<close>

text \<open>
  Claim C6. In every snapshot \<^verbatim>\<open>get_ref\<close> produces, \<open>is_current\<close> holds exactly when the
  ref is an app and the current-ref pointer of its name is the full ref string; for a
  runtime it never holds.
\<close>

theorem get_ref_is_current:
  "get_ref q full_ref = Inr (Some r) \<Longrightarrow>
   (is_current r \<longleftrightarrow>
      ref_kind r = FLATPAK_REF_KIND_APP
      \<and> flatpak_dir_current_ref q (Some (ref_name r)) = Some full_ref) \<and>
   (ref_kind r = FLATPAK_REF_KIND_RUNTIME \<longrightarrow> \<not> is_current r)"
  by (auto simp: get_ref_def Let_def flatpak_installed_ref_new_def ref_components_def
           split: option.splits list.splits if_splits)

theorem get_ref_is_current_witness:
  "get_ref demo_queries foo_ref = Inr (Some foo_installed)
   \<and> is_current foo_installed
   \<and> ref_kind foo_installed = FLATPAK_REF_KIND_APP
   \<and> flatpak_dir_current_ref demo_queries (Some (ref_name foo_installed)) = Some foo_ref"
  using get_ref_is_current [of demo_queries foo_ref foo_installed]
  by (simp add: get_ref_def demo_queries_def foo_ref_def platform_ref_def g_strsplit_def
        flatpak_installed_ref_new_def ref_components_def Let_def foo_installed_def)

subsection \<open>Install\<close>

text \<open>
  Claim C5. When the composed ref's deploy directory exists,
  \<^verbatim>\<open>flatpak_installation_install\<close> returns the error already-installed and its trace
  is empty: no working copy, no main context, no progress object, no pull or deploy.
\<close>

theorem install_already_installed:
  "flatpak_compose_ref q (kind = FLATPAK_REF_KIND_APP) name branch arch = Inr ref \<Longrightarrow>
   deploy_dir_exists q ref \<Longrightarrow>
   flatpak_installation_install q ops remote kind name arch branch progress =
     (Inl ALREADY_INSTALLED, [])"
  by (simp add: flatpak_installation_install_def install_out_def)

theorem install_already_installed_witness:
  "flatpak_compose_ref demo_queries (FLATPAK_REF_KIND_APP = FLATPAK_REF_KIND_APP)
     ''org.example.Foo'' None None = Inr foo_ref
   \<and> deploy_dir_exists demo_queries foo_ref
   \<and> flatpak_installation_install demo_queries demo_ops ''test-remote'' FLATPAK_REF_KIND_APP
       ''org.example.Foo'' None None True = (Inl ALREADY_INSTALLED, [])"
  using install_already_installed [of demo_queries FLATPAK_REF_KIND_APP "''org.example.Foo''"
      None None foo_ref demo_ops "''test-remote''" True]
  by (simp add: demo_queries_def foo_ref_def platform_ref_def)

text \<open>
  Claim C1. When the remote has been created and the repo setup, the import or the
  deploy fails, the function returns the error of the step that failed, the last call it
  makes is the deletion of the remote it created, and no remote of that name is in the
  catalog afterwards.
\<close>

theorem install_bundle_rollback:
  assumes "flatpak_bundle_load ops file = Inr b"
    and "flatpak_decompose_ref ops (bundle_ref b) = Inr (p0, p1, p2, p3)"
    and "\<not> deploy_dir_exists q (bundle_ref b)"
    and "flatpak_dir_create_origin_remote ops (bundle_origin b) p1 (g_file_get_basename file)
           (bundle_gpg_data b) = Inr remote"
    and "flatpak_dir_ensure_repo ops = Some e
         \<or> (flatpak_dir_ensure_repo ops = None
            \<and> flatpak_pull_from_bundle ops file remote (bundle_ref b) (bundle_gpg_data b \<noteq> None)
                = Some e)
         \<or> (flatpak_dir_ensure_repo ops = None
            \<and> flatpak_pull_from_bundle ops file remote (bundle_ref b) (bundle_gpg_data b \<noteq> None)
                = None
            \<and> flatpak_dir_deploy_install ops (bundle_ref b) remote = Some e)"
    and "flatpak_installation_install_bundle q ops remotes file = (res, remotes', t)"
  shows "res = Inl e \<and> last t = EvRemoteDelete remote \<and> remote \<notin> set remotes'"
  using assms
  by (auto simp: flatpak_installation_install_bundle_def install_bundle_out_def Let_def
        remote_deleted_def remote_created_def)

theorem install_bundle_rollback_witness:
  "flatpak_installation_install_bundle demo_queries demo_ops [''test-remote''] ''/tmp/bar.bundle'' =
     (Inl (Engine ''pull failed''), [''test-remote''],
      [EvCreateOriginRemote, EvDirClone, EvEnsureRepo,
       EvPullFromBundle ''org.example.Bar-origin'' ''app/org.example.Bar/x86_64/master'',
       EvRemoteDelete ''org.example.Bar-origin''])
   \<and> ''org.example.Bar-origin'' \<notin> set [''test-remote'']"
proof -
  let ?b = "\<lparr>bundle_ref = ''app/org.example.Bar/x86_64/master'',
             bundle_origin = Some ''http://example.org/repo'',
             bundle_gpg_data = None, bundle_checksum = ''fed987''\<rparr>"
  let ?r = "flatpak_installation_install_bundle demo_queries demo_ops [''test-remote'']
              ''/tmp/bar.bundle''"
  have run: "?r = (Inl (Engine ''pull failed''), [''test-remote''],
      [EvCreateOriginRemote, EvDirClone, EvEnsureRepo,
       EvPullFromBundle ''org.example.Bar-origin'' ''app/org.example.Bar/x86_64/master'',
       EvRemoteDelete ''org.example.Bar-origin''])"
    by (simp add: flatpak_installation_install_bundle_def install_bundle_out_def Let_def
          remote_deleted_def remote_created_def demo_ops_def demo_queries_def foo_ref_def
          platform_ref_def g_strsplit_def g_file_get_basename_def)
  have h1: "flatpak_bundle_load demo_ops ''/tmp/bar.bundle'' = Inr ?b"
    by (simp add: demo_ops_def)
  have h2: "flatpak_decompose_ref demo_ops (bundle_ref ?b) =
              Inr (''app'', ''org.example.Bar'', ''x86_64'', ''master'')"
    by (simp add: demo_ops_def g_strsplit_def)
  have h3: "\<not> deploy_dir_exists demo_queries (bundle_ref ?b)"
    by (simp add: demo_queries_def foo_ref_def platform_ref_def)
  have h4: "flatpak_dir_create_origin_remote demo_ops (bundle_origin ?b) ''org.example.Bar''
              (g_file_get_basename ''/tmp/bar.bundle'') (bundle_gpg_data ?b) =
            Inr ''org.example.Bar-origin''"
    by (simp add: demo_ops_def)
  have h5: "flatpak_dir_ensure_repo demo_ops = Some (Engine ''pull failed'')
         \<or> (flatpak_dir_ensure_repo demo_ops = None
            \<and> flatpak_pull_from_bundle demo_ops ''/tmp/bar.bundle'' ''org.example.Bar-origin''
                 (bundle_ref ?b) (bundle_gpg_data ?b \<noteq> None) = Some (Engine ''pull failed''))
         \<or> (flatpak_dir_ensure_repo demo_ops = None
            \<and> flatpak_pull_from_bundle demo_ops ''/tmp/bar.bundle'' ''org.example.Bar-origin''
                 (bundle_ref ?b) (bundle_gpg_data ?b \<noteq> None) = None
            \<and> flatpak_dir_deploy_install demo_ops (bundle_ref ?b) ''org.example.Bar-origin''
                 = Some (Engine ''pull failed''))"
    by (simp add: demo_ops_def)
  from install_bundle_rollback [OF h1 h2 h3 h4 h5 run]
  have "''org.example.Bar-origin'' \<notin> set [''test-remote'']" by blast
  with run show ?thesis by blast
qed

subsection \<open>Uninstall\<close>

text \<open>
  Claim C4. When the deploy directory exists and every step succeeds but
  \<^verbatim>\<open>flatpak_dir_undeploy_all\<close> reports that nothing was deployed, the function runs
  through to the mark-changed step and then returns the error not-installed.
\<close>

theorem uninstall_nothing_deployed:
  assumes "flatpak_compose_ref q (kind = FLATPAK_REF_KIND_APP) name branch arch = Inr ref"
    and "flatpak_dir_lock ops = None"
    and "deploy_dir_exists q ref"
    and "flatpak_dir_get_origin q ref = Inr remote"
    and "flatpak_dir_set_active ops ref = None"
    and "kind = FLATPAK_REF_KIND_APP \<and> flatpak_dir_current_ref q (Some name) = Some ref
           \<longrightarrow> flatpak_dir_drop_current_ref ops name = None"
    and "flatpak_dir_undeploy_all ops ref = Inr False"
    and "flatpak_dir_remove_ref ops remote ref = None"
    and "flatpak_dir_prune ops = None"
    and "kind = FLATPAK_REF_KIND_APP \<longrightarrow> flatpak_dir_update_exports ops name = None"
    and "flatpak_dir_mark_changed ops = None"
  shows "fst (flatpak_installation_uninstall q ops kind name arch branch) = Inl NOT_INSTALLED
         \<and> last (snd (flatpak_installation_uninstall q ops kind name arch branch)) = EvMarkChanged"
  using assms
  by (auto simp: flatpak_installation_uninstall_def uninstall_body_def Let_def
           split: option.splits prod.splits)

theorem uninstall_nothing_deployed_witness:
  "flatpak_installation_uninstall demo_queries demo_ops FLATPAK_REF_KIND_APP
     ''org.example.Foo'' None None =
     (Inl NOT_INSTALLED,
      [EvDirClone, EvLock, EvSetActive foo_ref, EvDropCurrentRef ''org.example.Foo'',
       EvUndeployAll foo_ref, EvRemoveRef ''test-remote'' foo_ref, EvUnlock, EvPrune,
       EvCleanupRemoved, EvUpdateExports ''org.example.Foo'', EvMarkChanged])
   \<and> flatpak_dir_undeploy_all demo_ops foo_ref = Inr False
   \<and> deploy_dir_exists demo_queries foo_ref"
  using uninstall_nothing_deployed [of demo_queries FLATPAK_REF_KIND_APP "''org.example.Foo''"
      None None foo_ref demo_ops "''test-remote''"]
  by (simp add: flatpak_installation_uninstall_def uninstall_body_def Let_def
        demo_queries_def demo_ops_def foo_ref_def platform_ref_def)

text \<open>
  Claim C9. Whatever the outcomes of the calls, the lock is not held when
  \<^verbatim>\<open>flatpak_installation_uninstall\<close> returns, and the prune, cleanup-removed,
  export and mark-changed calls are all made with the lock released.
\<close>

theorem uninstall_lock_released:
  "\<not> lock_held False (snd (flatpak_installation_uninstall q ops kind name arch branch)) \<and>
   unlocked_phases False (snd (flatpak_installation_uninstall q ops kind name arch branch))"
  by (auto simp: flatpak_installation_uninstall_def uninstall_body_def Let_def nonexclusive_def
           split: sum.splits option.splits if_splits prod.splits)

theorem uninstall_lock_released_witness:
  "snd (flatpak_installation_uninstall demo_queries demo_ops FLATPAK_REF_KIND_APP
          ''org.example.Foo'' None None) =
     [EvDirClone, EvLock, EvSetActive foo_ref, EvDropCurrentRef ''org.example.Foo'',
      EvUndeployAll foo_ref, EvRemoveRef ''test-remote'' foo_ref, EvUnlock, EvPrune,
      EvCleanupRemoved, EvUpdateExports ''org.example.Foo'', EvMarkChanged]
   \<and> snd (flatpak_installation_uninstall demo_queries demo_ops FLATPAK_REF_KIND_RUNTIME
          ''org.example.Foo'' None None) = [EvDirClone, EvLock, EvUnlock]
   \<and> \<not> lock_held False (snd (flatpak_installation_uninstall demo_queries demo_ops
          FLATPAK_REF_KIND_APP ''org.example.Foo'' None None))
   \<and> unlocked_phases False (snd (flatpak_installation_uninstall demo_queries demo_ops
          FLATPAK_REF_KIND_APP ''org.example.Foo'' None None))"
  using uninstall_lock_released [of demo_queries demo_ops FLATPAK_REF_KIND_APP
      "''org.example.Foo''" None None]
  by (simp add: flatpak_installation_uninstall_def uninstall_body_def Let_def
        demo_queries_def demo_ops_def foo_ref_def platform_ref_def)

subsection \<open>The deprecated size query\<close>

text \<open>
  Claim C10. Whatever the arguments, \<^verbatim>\<open>flatpak_installation_fetch_remote_size_sync\<close>
  returns an error, makes no call, and leaves both output locations as they were.
\<close>

theorem fetch_remote_size_sync_fails:
  "\<exists>msg. flatpak_installation_fetch_remote_size_sync q ops remote commit d i =
          (Inl (FAILED msg), d, i, [])"
  by (simp add: flatpak_installation_fetch_remote_size_sync_def flatpak_fail_def)

subsection \<open>The update diff\<close>

lemma read_remotes_table:
  "fst (read_remotes q remotes (ht, dbg)) =
   fst (read_remotes q (filter (\<lambda>r. \<not> isl (flatpak_installation_list_remote_refs_sync q r)) remotes) (ht, dbg'))"
  by (induction remotes arbitrary: ht dbg dbg') (auto split: sum.splits)

lemma read_remotes_debug:
  "snd (read_remotes q remotes (ht, dbg)) =
   dbg @ map (\<lambda>r. (r, projl (flatpak_installation_list_remote_refs_sync q r)))
           (filter (\<lambda>r. isl (flatpak_installation_list_remote_refs_sync q r)) remotes)"
  by (induction remotes arbitrary: ht dbg) (auto split: sum.splits)

lemma get_ref_list_remotes_update [simp]:
  "get_ref (q\<lparr>flatpak_dir_list_remotes := x\<rparr>) = get_ref q"
  by (rule ext) (simp add: get_ref_def Let_def split: option.splits list.splits)

lemma list_installed_refs_list_remotes_update [simp]:
  "flatpak_installation_list_installed_refs (q\<lparr>flatpak_dir_list_remotes := x\<rparr>) =
   flatpak_installation_list_installed_refs q"
  by (simp add: flatpak_installation_list_installed_refs_def split: sum.splits)

lemma list_remote_refs_sync_list_remotes_update [simp]:
  "flatpak_installation_list_remote_refs_sync (q\<lparr>flatpak_dir_list_remotes := x\<rparr>) =
   flatpak_installation_list_remote_refs_sync q"
  by (rule ext) (simp add: flatpak_installation_list_remote_refs_sync_def split: sum.splits)

lemma read_remotes_list_remotes_update [simp]:
  "read_remotes (q\<lparr>flatpak_dir_list_remotes := x\<rparr>) remotes acc = read_remotes q remotes acc"
  by (induction remotes arbitrary: acc) (auto split: sum.splits)

subsection \<open>The string keys of the update diff\<close>

text \<open>
  The hash table is keyed by the remote's name, a colon and the full ref. For canonical
  refs this key determines the pair: the last three slashes of the key bound the ref's
  components, and the kind before them holds no colon. So the table is the mapping
  keyed by pairs.
\<close>

lemma split_slash_free: "p \<in> set (split_slash s) \<Longrightarrow> CHR ''/'' \<notin> set p"
proof (induction s arbitrary: p)
  case Nil
  then show ?case by simp
next
  case (Cons c cs)
  then show ?case
    by (cases "split_slash cs") (auto split: if_splits)
qed

lemma ref_components_free:
  assumes "ref_components s = Some (k, n, a, b)"
  shows "CHR ''/'' \<notin> set n \<and> CHR ''/'' \<notin> set a \<and> CHR ''/'' \<notin> set b"
proof -
  from assms obtain k' where "g_strsplit s = [k', n, a, b]"
    by (auto simp: ref_components_def split: list.splits if_splits)
  then have "split_slash s = [k', n, a, b]"
    by (auto simp: g_strsplit_def split: if_splits)
  then have "n \<in> set (split_slash s)" "a \<in> set (split_slash s)" "b \<in> set (split_slash s)"
    by simp_all
  then show ?thesis
    using split_slash_free by blast
qed

lemma separator_unique:
  "c \<notin> set y1 \<Longrightarrow> c \<notin> set y2 \<Longrightarrow> x1 @ c # y1 = x2 @ c # y2 \<Longrightarrow> x1 = x2 \<and> y1 = y2"
  by (auto simp: append_eq_append_conv2 Cons_eq_append_conv append_eq_Cons_conv)

lemma kind_string_free: "CHR '':'' \<notin> set (kind_string k)"
  by (cases k) (simp_all add: kind_string_def)

lemma kind_string_inj: "kind_string k1 = kind_string k2 \<Longrightarrow> k1 = k2"
  by (cases k1; cases k2) (simp_all add: kind_string_def)

lemma update_key_inj:
  assumes "canonical_ref f1" "canonical_ref f2" "update_key r1 f1 = update_key r2 f2"
  shows "r1 = r2 \<and> f1 = f2"
proof -
  from assms(1) obtain k1 n1 a1 b1 where
    f1: "f1 = kind_string k1 @ ''/'' @ n1 @ ''/'' @ a1 @ ''/'' @ b1"
    and s1: "CHR ''/'' \<notin> set n1" "CHR ''/'' \<notin> set a1" "CHR ''/'' \<notin> set b1"
    by (auto simp: canonical_ref_def)
  from assms(2) obtain k2 n2 a2 b2 where
    f2: "f2 = kind_string k2 @ ''/'' @ n2 @ ''/'' @ a2 @ ''/'' @ b2"
    and s2: "CHR ''/'' \<notin> set n2" "CHR ''/'' \<notin> set a2" "CHR ''/'' \<notin> set b2"
    by (auto simp: canonical_ref_def)
  from assms(3) f1 f2 have
    "(r1 @ '':'' @ kind_string k1 @ ''/'' @ n1 @ ''/'' @ a1) @ CHR ''/'' # b1 =
     (r2 @ '':'' @ kind_string k2 @ ''/'' @ n2 @ ''/'' @ a2) @ CHR ''/'' # b2"
    by (simp add: update_key_def)
  from separator_unique [OF s1(3) s2(3) this] have
    b: "b1 = b2" and
    "(r1 @ '':'' @ kind_string k1 @ ''/'' @ n1) @ CHR ''/'' # a1 =
     (r2 @ '':'' @ kind_string k2 @ ''/'' @ n2) @ CHR ''/'' # a2"
    by simp_all
  from separator_unique [OF s1(2) s2(2) this(2)] have
    a: "a1 = a2" and
    "(r1 @ '':'' @ kind_string k1) @ CHR ''/'' # n1 = (r2 @ '':'' @ kind_string k2) @ CHR ''/'' # n2"
    by simp_all
  from separator_unique [OF s1(1) s2(1) this(2)] have
    n: "n1 = n2" and "r1 @ CHR '':'' # kind_string k1 = r2 @ CHR '':'' # kind_string k2"
    by simp_all
  from separator_unique [OF kind_string_free kind_string_free this(2)] have
    "r1 = r2" "kind_string k1 = kind_string k2"
    by simp_all
  with a b n f1 f2 show ?thesis by simp
qed

lemma format_canonical:
  "CHR ''/'' \<notin> set (ref_name r) \<Longrightarrow> CHR ''/'' \<notin> set (ref_arch r) \<Longrightarrow>
   CHR ''/'' \<notin> set (ref_branch r) \<Longrightarrow> canonical_ref (flatpak_ref_format_ref r)"
  unfolding canonical_ref_def flatpak_ref_format_ref_def by blast

lemma remote_ref_new_canonical:
  assumes "flatpak_remote_ref_new refspec checksum remote = Some rr"
  shows "canonical_ref (flatpak_ref_format_ref rr)"
proof -
  from assms obtain k n a b where c: "ref_components refspec = Some (k, n, a, b)"
    and rr: "ref_name rr = n" "ref_arch rr = a" "ref_branch rr = b"
    by (auto simp: flatpak_remote_ref_new_def split: option.splits)
  from ref_components_free [OF c] rr show ?thesis
    by (intro format_canonical) simp_all
qed

lemma map_filter_member:
  "y \<in> set (List.map_filter f xs) \<Longrightarrow> \<exists>x \<in> set xs. f x = Some y"
  by (induction xs) (auto split: option.splits)

lemma list_remote_refs_sync_canonical:
  assumes "flatpak_installation_list_remote_refs_sync q remote = Inr refs" "rr \<in> set refs"
  shows "canonical_ref (flatpak_ref_format_ref rr)"
proof -
  from assms obtain ht where
    "rr \<in> set (List.map_filter (\<lambda>(refspec, checksum). flatpak_remote_ref_new refspec checksum remote) ht)"
    by (auto simp: flatpak_installation_list_remote_refs_sync_def split: sum.splits)
  from map_filter_member [OF this] obtain refspec checksum where
    "flatpak_remote_ref_new refspec checksum remote = Some rr"
    by auto
  then show ?thesis by (rule remote_ref_new_canonical)
qed

lemma installed_ref_new_canonical:
  assumes "flatpak_installed_ref_new full_ref commit latest org paths path sz cur = Some r"
  shows "canonical_ref (flatpak_ref_format_ref r)"
proof -
  from assms obtain k n a b where c: "ref_components full_ref = Some (k, n, a, b)"
    and r: "ref_name r = n" "ref_arch r = a" "ref_branch r = b"
    by (auto simp: flatpak_installed_ref_new_def split: option.splits)
  from ref_components_free [OF c] r show ?thesis
    by (intro format_canonical) simp_all
qed

lemma get_ref_canonical:
  "get_ref q full_ref = Inr (Some r) \<Longrightarrow> canonical_ref (flatpak_ref_format_ref r)"
  by (auto simp: get_ref_def Let_def split: option.splits list.splits
        dest: installed_ref_new_canonical)

lemma each_get_ref_canonical:
  "each (get_ref q) refs = Inr rs \<Longrightarrow> Some r \<in> set rs \<Longrightarrow>
   canonical_ref (flatpak_ref_format_ref r)"
  by (induction refs arbitrary: rs) (auto split: sum.splits dest: get_ref_canonical)

lemma list_installed_refs_canonical:
  "flatpak_installation_list_installed_refs q = Inr installed \<Longrightarrow> Some r \<in> set installed \<Longrightarrow>
   canonical_ref (flatpak_ref_format_ref r)"
  by (auto simp: flatpak_installation_list_installed_refs_def split: sum.splits
        dest: each_get_ref_canonical)

lemma tables_agree_insert:
  assumes "tables_agree ht m" "canonical_ref f"
  shows "tables_agree (ht(update_key r f \<mapsto> c)) (m((r, f) \<mapsto> c))"
  unfolding tables_agree_def
proof (intro allI impI)
  fix r' f' assume c': "canonical_ref f'"
  show "(ht(update_key r f \<mapsto> c)) (update_key r' f') = (m((r, f) \<mapsto> c)) (r', f')"
  proof (cases "r' = r \<and> f' = f")
    case True
    then show ?thesis by simp
  next
    case False
    with update_key_inj [OF c' assms(2)] have "update_key r' f' \<noteq> update_key r f"
      by blast
    moreover from assms(1) c' have "ht (update_key r' f') = m (r', f')"
      by (simp add: tables_agree_def)
    ultimately show ?thesis using False by auto
  qed
qed

lemma tables_agree_insert_remote_refs:
  assumes "tables_agree ht m" "\<forall>rr \<in> set refs. canonical_ref (flatpak_ref_format_ref rr)"
  shows "tables_agree (insert_remote_refs remote refs ht)
           (fold (\<lambda>rr m. m((remote, flatpak_ref_format_ref rr) \<mapsto> ref_commit rr)) refs m)"
  using assms unfolding insert_remote_refs_def
  by (induction refs arbitrary: ht m) (simp_all add: tables_agree_insert)

lemma tables_agree_read_remotes:
  assumes "tables_agree ht m"
  shows "tables_agree (fst (read_remotes q remotes (ht, dbg)))
           (fold (\<lambda>remote m.
                    case flatpak_installation_list_remote_refs_sync q remote of
                      Inl e \<Rightarrow> m
                    | Inr refs \<Rightarrow>
                        fold (\<lambda>rr m. m((remote, flatpak_ref_format_ref rr) \<mapsto> ref_commit rr)) refs m)
                 remotes m)"
  using assms
proof (induction remotes arbitrary: ht m dbg)
  case Nil
  then show ?case by simp
next
  case (Cons remote remotes)
  show ?case
  proof (cases "flatpak_installation_list_remote_refs_sync q remote")
    case (Inl e)
    with Cons show ?thesis by simp
  next
    case (Inr refs)
    then have "\<forall>rr \<in> set refs. canonical_ref (flatpak_ref_format_ref rr)"
      using list_remote_refs_sync_canonical by blast
    from tables_agree_insert_remote_refs [OF Cons.prems this]
    show ?thesis using Inr Cons.IH by simp
  qed
qed

lemma read_remotes_catalog_mapping:
  "tables_agree (fst (read_remotes q remotes (Map.empty, []))) (catalog_mapping q remotes)"
  unfolding catalog_mapping_def
  by (rule tables_agree_read_remotes) (simp add: tables_agree_def)

lemma has_update_catalog_mapping:
  assumes "canonical_ref (flatpak_ref_format_ref r)"
  shows "has_update (fst (read_remotes q remotes (Map.empty, []))) r \<longleftrightarrow>
         (\<exists>c. catalog_mapping q remotes (origin r, flatpak_ref_format_ref r) = Some c
              \<and> Some c \<noteq> latest_commit r)"
  using read_remotes_catalog_mapping [of q remotes] assms
  by (auto simp: has_update_def tables_agree_def split: option.splits)

lemma collect_updates_objects:
  "collect_updates ht (map Some installed) = Inr (filter (has_update ht) installed)"
  by (induction installed) simp_all

lemma collect_updates_null:
  "None \<in> set installed \<Longrightarrow> collect_updates ht installed = Inl NullDereference"
proof (induction installed)
  case Nil
  then show ?case by simp
next
  case (Cons x xs)
  then show ?case by (cases x) auto
qed

lemma for_update_result:
  assumes "flatpak_dir_list_remotes q = Inr remotes"
    and "flatpak_installation_list_installed_refs q = Inr (map Some installed)"
  shows "snd (flatpak_installation_list_installed_refs_for_update q) =
           Inr (filter (\<lambda>r. \<exists>c. catalog_mapping q remotes (origin r, flatpak_ref_format_ref r) = Some c
                                 \<and> Some c \<noteq> latest_commit r) installed)"
proof -
  have "filter (has_update (fst (read_remotes q remotes (Map.empty, [])))) installed =
        filter (\<lambda>r. \<exists>c. catalog_mapping q remotes (origin r, flatpak_ref_format_ref r) = Some c
                                 \<and> Some c \<noteq> latest_commit r) installed"
    by (rule filter_cong [OF refl])
       (simp add: has_update_catalog_mapping list_installed_refs_canonical [OF assms(2)])
  with assms show ?thesis
    by (simp add: flatpak_installation_list_installed_refs_for_update_def
          flatpak_installation_list_remotes_def split_beta collect_updates_objects)
qed

lemma catalog_mapping_listed:
  "catalog_mapping q remotes =
   mapping_of_catalogs
     (map (\<lambda>r. (r, projr (flatpak_installation_list_remote_refs_sync q r)))
        (filter (\<lambda>r. \<not> isl (flatpak_installation_list_remote_refs_sync q r)) remotes))"
proof -
  have "fold (\<lambda>remote m.
                case flatpak_installation_list_remote_refs_sync q remote of
                  Inl e \<Rightarrow> m
                | Inr refs \<Rightarrow>
                    fold (\<lambda>rr m. m((remote, flatpak_ref_format_ref rr) \<mapsto> ref_commit rr)) refs m)
          remotes m =
        fold (\<lambda>(remote, refs) m.
                fold (\<lambda>rr m. m((remote, flatpak_ref_format_ref rr) \<mapsto> ref_commit rr)) refs m)
          (map (\<lambda>r. (r, projr (flatpak_installation_list_remote_refs_sync q r)))
             (filter (\<lambda>r. \<not> isl (flatpak_installation_list_remote_refs_sync q r)) remotes)) m"
    for m
    by (induction remotes arbitrary: m) (auto split: sum.splits)
  then show ?thesis
    by (simp add: catalog_mapping_def mapping_of_catalogs_def)
qed

lemma update_diff_catalog_mapping:
  "update_diff
     (map (\<lambda>r. (r, projr (flatpak_installation_list_remote_refs_sync q r)))
        (filter (\<lambda>r. \<not> isl (flatpak_installation_list_remote_refs_sync q r)) remotes))
     installed =
   filter (\<lambda>r. \<exists>c. catalog_mapping q remotes (origin r, flatpak_ref_format_ref r) = Some c
                    \<and> Some c \<noteq> latest_commit r) installed"
  unfolding update_diff_def catalog_mapping_listed [symmetric]
  by (rule filter_cong [OF refl]) (auto split: option.splits)

text \<open>The sample's listings, evaluated.\<close>

lemma demo_list_remotes:
  "flatpak_dir_list_remotes demo_queries = Inr [''broken-remote'', ''test-remote'']"
  by (simp add: demo_queries_def)

lemma demo_installed:
  "flatpak_installation_list_installed_refs demo_queries =
     Inr (map Some [foo_installed, platform_installed])"
proof -
  have g1: "get_ref demo_queries foo_ref = Inr (Some foo_installed)"
    by (simp add: get_ref_def demo_queries_def foo_ref_def platform_ref_def g_strsplit_def
          flatpak_installed_ref_new_def ref_components_def Let_def foo_installed_def)
  have g2: "get_ref demo_queries platform_ref = Inr (Some platform_installed)"
    by (simp add: get_ref_def demo_queries_def foo_ref_def platform_ref_def g_strsplit_def
          flatpak_installed_ref_new_def ref_components_def Let_def platform_installed_def)
  have l: "flatpak_dir_list_refs demo_queries ''app'' = Inr [foo_ref]"
    "flatpak_dir_list_refs demo_queries ''runtime'' = Inr [platform_ref]"
    by (simp_all add: demo_queries_def)
  show ?thesis
    by (simp add: flatpak_installation_list_installed_refs_def l g1 g2)
qed

lemma demo_broken_remote:
  "flatpak_installation_list_remote_refs_sync demo_queries ''broken-remote'' =
     Inl (Engine ''unreachable'')"
  by (simp add: flatpak_installation_list_remote_refs_sync_def demo_queries_def)

lemma demo_test_remote:
  "flatpak_installation_list_remote_refs_sync demo_queries ''test-remote'' = Inr test_remote_refs"
  by (simp add: flatpak_installation_list_remote_refs_sync_def demo_queries_def
        flatpak_remote_ref_new_def ref_components_def g_strsplit_def foo_ref_def
        platform_ref_def test_remote_refs_def)

lemma demo_formats:
  "flatpak_ref_format_ref foo_installed = foo_ref"
  "flatpak_ref_format_ref platform_installed = platform_ref"
  by (simp_all add: flatpak_ref_format_ref_def kind_string_def foo_ref_def platform_ref_def
        foo_installed_def platform_installed_def)

lemma demo_update_diff:
  "update_diff [(''test-remote'', test_remote_refs)] [foo_installed, platform_installed] =
     [foo_installed]"
  by (simp add: update_diff_def mapping_of_catalogs_def test_remote_refs_def
        flatpak_ref_format_ref_def kind_string_def foo_installed_def platform_installed_def)

text \<open>
  Claim C7. Given the list of remotes: each remote whose listing failed leaves one debug
  line, with its error, and nothing else; the result is the one the function computes
  from the remotes whose catalog could be listed; when the installed refs are listed,
  that result is the diff of the installed refs against the catalogs of exactly those
  remotes; and when the installed refs cannot be listed, the call fails with that error.
\<close>

theorem for_update_skips_unreadable_remotes:
  assumes "flatpak_dir_list_remotes q = Inr remotes"
  shows "fst (flatpak_installation_list_installed_refs_for_update q) =
             map (\<lambda>r. (r, projl (flatpak_installation_list_remote_refs_sync q r)))
               (filter (\<lambda>r. isl (flatpak_installation_list_remote_refs_sync q r)) remotes)
         \<and> snd (flatpak_installation_list_installed_refs_for_update q) =
             snd (flatpak_installation_list_installed_refs_for_update
                    (q\<lparr>flatpak_dir_list_remotes :=
                         Inr (filter (\<lambda>r. \<not> isl (flatpak_installation_list_remote_refs_sync q r))
                                remotes)\<rparr>))
         \<and> (\<forall>installed.
               flatpak_installation_list_installed_refs q = Inr (map Some installed) \<longrightarrow>
               snd (flatpak_installation_list_installed_refs_for_update q) =
                 Inr (update_diff
                        (map (\<lambda>r. (r, projr (flatpak_installation_list_remote_refs_sync q r)))
                           (filter (\<lambda>r. \<not> isl (flatpak_installation_list_remote_refs_sync q r))
                              remotes))
                        installed))
         \<and> (\<forall>e. flatpak_installation_list_installed_refs q = Inl e \<longrightarrow>
               snd (flatpak_installation_list_installed_refs_for_update q) = Inl e)"
proof -
  let ?ok = "filter (\<lambda>r. \<not> isl (flatpak_installation_list_remote_refs_sync q r)) remotes"
  have tbl: "fst (read_remotes q remotes (Map.empty, [])) = fst (read_remotes q ?ok (Map.empty, []))"
    by (rule read_remotes_table)
  have dbg: "snd (read_remotes q remotes (Map.empty, [])) =
             map (\<lambda>r. (r, projl (flatpak_installation_list_remote_refs_sync q r)))
               (filter (\<lambda>r. isl (flatpak_installation_list_remote_refs_sync q r)) remotes)"
    using read_remotes_debug [of q remotes Map.empty "[]"] by simp
  have logged: "fst (flatpak_installation_list_installed_refs_for_update q) =
             map (\<lambda>r. (r, projl (flatpak_installation_list_remote_refs_sync q r)))
               (filter (\<lambda>r. isl (flatpak_installation_list_remote_refs_sync q r)) remotes)"
    using assms dbg
    by (auto simp: flatpak_installation_list_installed_refs_for_update_def
          flatpak_installation_list_remotes_def split: sum.splits prod.splits)
  have same: "snd (flatpak_installation_list_installed_refs_for_update q) =
             snd (flatpak_installation_list_installed_refs_for_update
                    (q\<lparr>flatpak_dir_list_remotes := Inr ?ok\<rparr>))"
    using assms tbl
    by (auto simp: flatpak_installation_list_installed_refs_for_update_def
          flatpak_installation_list_remotes_def split: sum.splits prod.splits)
  have diff: "snd (flatpak_installation_list_installed_refs_for_update q) =
                 Inr (update_diff
                        (map (\<lambda>r. (r, projr (flatpak_installation_list_remote_refs_sync q r))) ?ok)
                        installed)"
    if "flatpak_installation_list_installed_refs q = Inr (map Some installed)" for installed
    using for_update_result [OF assms that] by (simp add: update_diff_catalog_mapping)
  have abort: "snd (flatpak_installation_list_installed_refs_for_update q) = Inl e"
    if "flatpak_installation_list_installed_refs q = Inl e" for e
    using assms that
    by (auto simp: flatpak_installation_list_installed_refs_for_update_def
          flatpak_installation_list_remotes_def split: sum.splits prod.splits)
  from logged same diff abort show ?thesis by blast
qed

theorem for_update_skips_unreadable_remotes_witness:
  "flatpak_dir_list_remotes demo_queries = Inr [''broken-remote'', ''test-remote'']
   \<and> flatpak_installation_list_remote_refs_sync demo_queries ''broken-remote'' =
       Inl (Engine ''unreachable'')
   \<and> flatpak_installation_list_remote_refs_sync demo_queries ''test-remote'' = Inr test_remote_refs
   \<and> flatpak_installation_list_installed_refs demo_queries =
       Inr (map Some [foo_installed, platform_installed])
   \<and> flatpak_installation_list_installed_refs_for_update demo_queries =
       ([(''broken-remote'', Engine ''unreachable'')], Inr [foo_installed])
   \<and> update_diff [(''test-remote'', test_remote_refs)] [foo_installed, platform_installed] =
       [foo_installed]
   \<and> snd (flatpak_installation_list_installed_refs_for_update
            (demo_queries\<lparr>flatpak_dir_list_remotes := Inr [''test-remote'']\<rparr>)) =
       Inr [foo_installed]"
proof -
  note inst = for_update_skips_unreadable_remotes [OF demo_list_remotes]
  have "fst (flatpak_installation_list_installed_refs_for_update demo_queries) =
          [(''broken-remote'', Engine ''unreachable'')]"
    using inst by (simp add: demo_broken_remote demo_test_remote)
  moreover have r: "snd (flatpak_installation_list_installed_refs_for_update demo_queries) =
          Inr [foo_installed]"
    using inst [THEN conjunct2, THEN conjunct2, THEN conjunct1, rule_format, OF demo_installed]
    by (simp add: demo_broken_remote demo_test_remote demo_update_diff)
  moreover have "snd (flatpak_installation_list_installed_refs_for_update
            (demo_queries\<lparr>flatpak_dir_list_remotes := Inr [''test-remote'']\<rparr>)) =
          Inr [foo_installed]"
    using inst [THEN conjunct2, THEN conjunct1] r
    by (simp add: demo_broken_remote demo_test_remote)
  ultimately show ?thesis
    using demo_list_remotes demo_broken_remote demo_test_remote demo_installed demo_update_diff
    by (simp add: prod_eq_iff)
qed

text \<open>
  Claim C8. When the remotes can be listed and the installed refs are listed, the result
  is the list of the installed refs, in their order, for which the pair of origin and
  full ref has an entry in the mapping built from the listed catalogs and that entry's
  commit is not the ref's latest known commit (a ref with no latest known commit differs
  from every commit).
\<close>

theorem for_update_membership:
  assumes "flatpak_dir_list_remotes q = Inr remotes"
    and "flatpak_installation_list_installed_refs q = Inr (map Some installed)"
  shows "snd (flatpak_installation_list_installed_refs_for_update q) =
           Inr (filter (\<lambda>r. \<exists>c. catalog_mapping q remotes (origin r, flatpak_ref_format_ref r) = Some c
                                 \<and> Some c \<noteq> latest_commit r) installed)"
  using assms by (rule for_update_result)

theorem for_update_membership_witness:
  "flatpak_dir_list_remotes demo_queries = Inr [''broken-remote'', ''test-remote'']
   \<and> flatpak_installation_list_installed_refs demo_queries =
       Inr (map Some [foo_installed, platform_installed])
   \<and> snd (flatpak_installation_list_installed_refs_for_update demo_queries) = Inr [foo_installed]
   \<and> catalog_mapping demo_queries [''broken-remote'', ''test-remote'']
         (origin foo_installed, flatpak_ref_format_ref foo_installed) = Some ''def456''
   \<and> latest_commit foo_installed = Some ''abc123''
   \<and> catalog_mapping demo_queries [''broken-remote'', ''test-remote'']
         (origin platform_installed, flatpak_ref_format_ref platform_installed) = Some ''777aaa''
   \<and> latest_commit platform_installed = Some ''777aaa''"
proof -
  have m1: "catalog_mapping demo_queries [''broken-remote'', ''test-remote'']
              (origin foo_installed, flatpak_ref_format_ref foo_installed) = Some ''def456''"
    by (simp add: catalog_mapping_def demo_broken_remote demo_test_remote test_remote_refs_def
          flatpak_ref_format_ref_def kind_string_def foo_installed_def)
  have m2: "catalog_mapping demo_queries [''broken-remote'', ''test-remote'']
              (origin platform_installed, flatpak_ref_format_ref platform_installed) =
            Some ''777aaa''"
    by (simp add: catalog_mapping_def demo_broken_remote demo_test_remote test_remote_refs_def
          flatpak_ref_format_ref_def kind_string_def platform_installed_def)
  have l: "latest_commit foo_installed = Some ''abc123''"
    "latest_commit platform_installed = Some ''777aaa''"
    by (simp_all add: foo_installed_def platform_installed_def)
  from for_update_membership [OF demo_list_remotes demo_installed]
  have "snd (flatpak_installation_list_installed_refs_for_update demo_queries) =
          Inr [foo_installed]"
    by (simp add: m1 m2 l)
  with demo_list_remotes demo_installed m1 m2 l show ?thesis
    by simp
qed

end
